theory Spec2Isabelle
  imports Main "HOL-Library.Monad_Syntax"
begin

section \<open>Data model of package resource (api/resource/resource.go)\<close>

subsection \<open>Go values used by the package\<close>

text \<open>
  A Go \<open>error\<close> value is modelled by its message, the text \<open>err.Error()\<close> returns.
  A function returning \<open>(T, error)\<close> is a pair of the value and an optional error,
  \<open>None\<close> being Go's \<open>nil\<close>.
\<close>

datatype error = GoError (Error: string)

text \<open>
  An \<open>interface{}\<close> value found in a document: the closed variant of the specification, section 9.
  A Go \<open>map[string]interface{}\<close> has unique keys and no order: a partial function.
\<close>

datatype "value" =
    VNull
  | VBool bool
  | VNumber int
  | VString string
  | VSeq "value list"
  | VMap "string \<Rightarrow> value option"

text \<open>
  Modelled from the spec: \<open>resid.Gvk\<close> and \<open>resid.ResId\<close> are declared outside
  resource.go. Section 3: an identity is (group, version, kind, name, namespace), and two
  identities are equal iff all fields match.
\<close>

record Gvk =
  Group :: string
  Version :: string
  Kind :: string

record ResId =
  ItemGvk :: Gvk
  Name :: string
  Namespace :: string

definition NewResIdWithNamespace :: "Gvk \<Rightarrow> string \<Rightarrow> string \<Rightarrow> ResId" where
  "NewResIdWithNamespace k n ns = \<lparr>ItemGvk = k, Name = n, Namespace = ns\<rparr>"

text \<open>
  Modelled from the spec: \<open>types.GenArgs\<close> is declared outside resource.go. Section 3:
  a behavior enumeration plus a flag saying whether a content hash is appended to the name.
  The Resource holds a pointer to it (possibly \<open>nil\<close>), which this package only reads.
\<close>

datatype GenerationBehavior = BehaviorCreate | BehaviorReplace | BehaviorMerge

record GenArgs =
  behavior :: GenerationBehavior
  needsHashSuffix :: bool

subsection \<open>The structured document behind \<open>ifc.Kunstructured\<close>\<close>

text \<open>
  Modelled from the spec: the interface \<open>ifc.Kunstructured\<close> and its implementation are
  outside resource.go. Section 6 lists its capabilities: get/set of labels and annotations as
  string-keyed mappings, get/set of kind/group/version, name and namespace, field lookup by
  path that returns an error when the path is absent or malformed, the top-level mapping,
  deep copy and marshaling. The state of a document is one component per capability;
  a setter changes its own component and no other.

  \<^item> \<open>stringAt\<close> is the outcome of the string lookup at a path (\<open>Inl\<close>: the lookup fails);
    the namespace lives at path \<open>metadata.namespace\<close>.
  \<^item> \<open>content\<close> is the top-level mapping handed out by \<open>Map()\<close>. A Go map is a reference:
    an assignment to the mapping \<open>Map()\<close> returned is an assignment to the document.
\<close>

record Kunstructured =
  gvk :: Gvk
  name :: string
  labels :: "string \<Rightarrow> string option"
  annotations :: "string \<Rightarrow> string option"
  stringAt :: "string \<Rightarrow> error + string"
  content :: "string \<Rightarrow> value option"

definition kun_GetGvk :: "Kunstructured \<Rightarrow> Gvk" where
  "kun_GetGvk d = gvk d"

definition kun_GetName :: "Kunstructured \<Rightarrow> string" where
  "kun_GetName d = name d"

definition kun_SetName :: "string \<Rightarrow> Kunstructured \<Rightarrow> Kunstructured" where
  "kun_SetName n d = d\<lparr>name := n\<rparr>"

definition kun_GetLabels :: "Kunstructured \<Rightarrow> (string \<Rightarrow> string option)" where
  "kun_GetLabels d = labels d"

definition kun_SetLabels :: "(string \<Rightarrow> string option) \<Rightarrow> Kunstructured \<Rightarrow> Kunstructured" where
  "kun_SetLabels m d = d\<lparr>labels := m\<rparr>"

definition kun_GetAnnotations :: "Kunstructured \<Rightarrow> (string \<Rightarrow> string option)" where
  "kun_GetAnnotations d = annotations d"

definition kun_SetAnnotations :: "(string \<Rightarrow> string option) \<Rightarrow> Kunstructured \<Rightarrow> Kunstructured" where
  "kun_SetAnnotations m d = d\<lparr>annotations := m\<rparr>"

text \<open>
  Modelled from the spec: \<open>GetString\<close> of the document returns \<open>(string, error)\<close>, the
  error when the path is absent or malformed (section 6). Together with the error comes
  Go's zero value, the empty string: section 7 treats a failed namespace lookup as the empty
  string, and resource.go line 391 relies on it ("if err, namespace is empty").
\<close>

definition kun_GetString :: "Kunstructured \<Rightarrow> string \<Rightarrow> string \<times> error option" where
  "kun_GetString d p = (case stringAt d p of Inl e \<Rightarrow> ('''', Some e) | Inr s \<Rightarrow> (s, None))"

definition kun_SetNamespace :: "string \<Rightarrow> Kunstructured \<Rightarrow> Kunstructured" where
  "kun_SetNamespace n d = d\<lparr>stringAt := (stringAt d)(''metadata.namespace'' := Inr n)\<rparr>"

definition kun_Map :: "Kunstructured \<Rightarrow> (string \<Rightarrow> value option)" where
  "kun_Map d = content d"

text \<open>A deep copy is the same value, owned by somebody else.\<close>

definition kun_Copy :: "Kunstructured \<Rightarrow> Kunstructured" where
  "kun_Copy d = d"

subsection \<open>The Resource struct (lines 66-75)\<close>

text \<open>
  Slices are lists; a \<open>nil\<close> slice and an empty one are both \<open>[]\<close> (the code of the
  package reads them through \<open>len\<close>, \<open>range\<close>, \<open>append\<close> and \<open>copy\<close> only).
  The \<open>options\<close> pointer is \<open>None\<close> when \<open>nil\<close>. A method receiver or argument of type
  \<open>*Resource\<close> is a Resource: a non-nil pointer to a struct whose \<open>kunStr\<close> is set.
  A method that assigns to fields of its receiver returns the receiver after the call.
\<close>

record Resource =
  kunStr :: Kunstructured
  originalName :: string
  originalNs :: string
  options :: "GenArgs option"
  refBy :: "ResId list"
  refVarNames :: "string list"
  namePrefixes :: "string list"
  nameSuffixes :: "string list"

section \<open>Name prefix and suffix stacks (lines 250-325)\<close>

text \<open>
  Go's \<open>int\<close> is \<open>int\<close> here: the only arithmetic is on lengths and loop counters between
  \<open>-1\<close> and a slice length, far from the 64-bit bounds. An index expression \<open>s[i]\<close>
  panics outside \<open>0 \<le> i < len(s)\<close>; the panic is the result \<open>None\<close>.
\<close>

definition len :: "'a list \<Rightarrow> int" where
  "len xs = int (length xs)"

definition index :: "'a list \<Rightarrow> int \<Rightarrow> 'a option" where
  "index xs i = (if 0 \<le> i \<and> i < len xs then Some (xs ! nat i) else None)"

definition AddNamePrefix :: "string \<Rightarrow> Resource \<Rightarrow> Resource" where
  "AddNamePrefix p r = r\<lparr>namePrefixes := namePrefixes r @ [p]\<rparr>"

definition AddNameSuffix :: "string \<Rightarrow> Resource \<Rightarrow> Resource" where
  "AddNameSuffix s r = r\<lparr>nameSuffixes := nameSuffixes r @ [s]\<rparr>"

definition GetOutermostNamePrefix :: "Resource \<Rightarrow> string option" where
  "GetOutermostNamePrefix r =
     (if len (namePrefixes r) = 0 then Some ''''
      else index (namePrefixes r) (len (namePrefixes r) - 1))"

definition GetOutermostNameSuffix :: "Resource \<Rightarrow> string option" where
  "GetOutermostNameSuffix r =
     (if len (nameSuffixes r) = 0 then Some ''''
      else index (nameSuffixes r) (len (nameSuffixes r) - 1))"

text \<open>
  The loop of \<open>sameEndingSubarray\<close> (lines 288-292), with \<open>i\<close> the loop counter. The
  left operand \<open>a[alen-i]\<close> is read before the right one.
\<close>

function sameEndingSubarray_loop ::
  "string list \<Rightarrow> string list \<Rightarrow> int \<Rightarrow> int \<Rightarrow> int \<Rightarrow> int \<Rightarrow> bool option" where
  "sameEndingSubarray_loop a b compareLen alen blen i =
     (if i \<le> compareLen - 1 then
        (case index a (alen - i) of
           None \<Rightarrow> None
         | Some x \<Rightarrow>
             (case index b (blen - i) of
                None \<Rightarrow> None
              | Some y \<Rightarrow>
                  if x \<noteq> y then Some False
                  else sameEndingSubarray_loop a b compareLen alen blen (i + 1)))
      else Some True)"
  by pat_completeness auto
termination
  by (relation "measure (\<lambda>(a, b, compareLen, alen, blen, i). nat (compareLen - i))") auto

declare sameEndingSubarray_loop.simps [simp del]

definition sameEndingSubarray :: "string list \<Rightarrow> string list \<Rightarrow> bool option" where
  "sameEndingSubarray a b =
     (let compareLen = (if len a < len b then len a else len b) in
      if compareLen = 0 then Some True
      else sameEndingSubarray_loop a b compareLen (len a - 1) (len b - 1) 0)"

definition GetNamePrefixes :: "Resource \<Rightarrow> string list" where
  "GetNamePrefixes r = namePrefixes r"

definition GetNameSuffixes :: "Resource \<Rightarrow> string list" where
  "GetNameSuffixes r = nameSuffixes r"

text \<open>
  \<open>&&\<close> evaluates its right operand only when the left one is true; \<open>==\<close> evaluates the
  left operand first.
\<close>

definition OutermostPrefixSuffixEquals :: "Resource \<Rightarrow> Resource \<Rightarrow> bool option" where
  "OutermostPrefixSuffixEquals r o' =
     do {
       rp \<leftarrow> GetOutermostNamePrefix r;
       op \<leftarrow> GetOutermostNamePrefix o';
       if rp = op then
         do {
           rs \<leftarrow> GetOutermostNameSuffix r;
           os \<leftarrow> GetOutermostNameSuffix o';
           Some (rs = os)
         }
       else Some False
     }"

definition PrefixesSuffixesEquals :: "Resource \<Rightarrow> Resource \<Rightarrow> bool option" where
  "PrefixesSuffixesEquals r o' =
     do {
       p \<leftarrow> sameEndingSubarray (GetNamePrefixes r) (GetNamePrefixes o');
       if p then sameEndingSubarray (GetNameSuffixes r) (GetNameSuffixes o')
       else Some False
     }"

text \<open>
  The ending-subsequence match in the words of the specification, section 4.2, against which
  \<open>sameEndingSubarray\<close> is compared: with \<open>k = min(la, lb)\<close>, either \<open>k = 0\<close> or
  \<open>A[la-1-i] = B[lb-1-i]\<close> for every \<open>i\<close> in \<open>[0, k)\<close>.
\<close>

definition spec_endingSubsequenceMatch :: "string list \<Rightarrow> string list \<Rightarrow> bool" where
  "spec_endingSubsequenceMatch A B =
     (let la = length A; lb = length B; k = min la lb in
      k = 0 \<or> (\<forall>i \<in> {0..<k}. A ! (la - 1 - i) = B ! (lb - 1 - i)))"

section \<open>Delegation to the document (lines 77-155, 389-393)\<close>

definition ResetPrimaryData :: "Resource \<Rightarrow> Resource \<Rightarrow> Resource" where
  "ResetPrimaryData r incoming = r\<lparr>kunStr := kun_Copy (kunStr incoming)\<rparr>"

definition GetAnnotations :: "Resource \<Rightarrow> (string \<Rightarrow> string option)" where
  "GetAnnotations r = kun_GetAnnotations (kunStr r)"

definition GetLabels :: "Resource \<Rightarrow> (string \<Rightarrow> string option)" where
  "GetLabels r = kun_GetLabels (kunStr r)"

definition GetName :: "Resource \<Rightarrow> string" where
  "GetName r = kun_GetName (kunStr r)"

definition Map :: "Resource \<Rightarrow> (string \<Rightarrow> value option)" where
  "Map r = kun_Map (kunStr r)"

definition SetName :: "string \<Rightarrow> Resource \<Rightarrow> Resource" where
  "SetName n r = r\<lparr>kunStr := kun_SetName n (kunStr r)\<rparr>"

definition SetNamespace :: "string \<Rightarrow> Resource \<Rightarrow> Resource" where
  "SetNamespace n r = r\<lparr>kunStr := kun_SetNamespace n (kunStr r)\<rparr>"

text \<open>\<open>GetNamespace\<close> (lines 389-393) drops the error of the lookup and returns the string.\<close>

definition GetNamespace :: "Resource \<Rightarrow> string" where
  "GetNamespace r =
     (let (namespace, err) = kun_GetString (kunStr r) ''metadata.namespace'' in namespace)"

section \<open>Identities (lines 333-351, 398-409)\<close>

definition GetOriginalName :: "Resource \<Rightarrow> string" where
  "GetOriginalName r = originalName r"

definition GetOriginalNs :: "Resource \<Rightarrow> string" where
  "GetOriginalNs r = originalNs r"

definition OrgId :: "Resource \<Rightarrow> ResId" where
  "OrgId r = NewResIdWithNamespace (kun_GetGvk (kunStr r)) (GetOriginalName r) (GetOriginalNs r)"

definition CurId :: "Resource \<Rightarrow> ResId" where
  "CurId r = NewResIdWithNamespace (kun_GetGvk (kunStr r)) (kun_GetName (kunStr r)) (GetNamespace r)"

section \<open>Replace and Merge (lines 183-200, 227-248, 432-455)\<close>

text \<open>
  Go's builtin \<open>copy(dst, src)\<close> overwrites the first \<open>min(len(dst), len(src))\<close> elements
  of \<open>dst\<close>; \<open>make([]T, n)\<close> is \<open>n\<close> zero values.
\<close>

definition copy_into :: "'a list \<Rightarrow> 'a list \<Rightarrow> 'a list" where
  "copy_into dst src =
     (let n = min (length dst) (length src) in take n src @ drop n dst)"

definition zeroResId :: ResId where
  "zeroResId =
     \<lparr>ItemGvk = \<lparr>Group = '''', Version = '''', Kind = ''''\<rparr>, Name = '''', Namespace = ''''\<rparr>"

definition copyRefBy :: "Resource \<Rightarrow> ResId list" where
  "copyRefBy r =
     (if refBy r = [] then []
      else copy_into (replicate (length (refBy r)) zeroResId) (refBy r))"

definition copyStringSlice :: "string list \<Rightarrow> string list" where
  "copyStringSlice s =
     (if s = [] then [] else copy_into (replicate (length s) '''') s)"

definition copyOtherFields :: "Resource \<Rightarrow> Resource \<Rightarrow> Resource" where
  "copyOtherFields r other =
     r\<lparr>originalName := originalName other,
       originalNs := originalNs other,
       options := options other,
       refBy := copyRefBy other,
       refVarNames := copyStringSlice (refVarNames other),
       namePrefixes := copyStringSlice (namePrefixes other),
       nameSuffixes := copyStringSlice (nameSuffixes other)\<rparr>"

text \<open>
  \<open>mergeStringMaps\<close> (lines 447-455). The inner loop stores every entry of \<open>m\<close> into
  \<open>result\<close>; the keys of a map are distinct, so whatever order \<open>range\<close> picks the outcome
  is \<open>result ++ m\<close>. The variadic parameter is a list.
\<close>

fun mergeStringMaps_loop ::
  "(string \<Rightarrow> string option) \<Rightarrow> (string \<Rightarrow> string option) list \<Rightarrow> (string \<Rightarrow> string option)" where
  "mergeStringMaps_loop result [] = result"
| "mergeStringMaps_loop result (m # maps) = mergeStringMaps_loop (result ++ m) maps"

definition mergeStringMaps :: "(string \<Rightarrow> string option) list \<Rightarrow> (string \<Rightarrow> string option)" where
  "mergeStringMaps maps = mergeStringMaps_loop Map.empty maps"

text \<open>
  \<open>Replace\<close> (lines 183-190): four writes to the document of \<open>r\<close>, one after the other, then
  \<open>copyOtherFields\<close>.
\<close>

definition Replace :: "Resource \<Rightarrow> Resource \<Rightarrow> Resource" where
  "Replace r other =
     (let r1 = r\<lparr>kunStr := kun_SetLabels
                  (mergeStringMaps [kun_GetLabels (kunStr other), kun_GetLabels (kunStr r)])
                  (kunStr r)\<rparr>;
          r2 = r1\<lparr>kunStr := kun_SetAnnotations
                  (mergeStringMaps [kun_GetAnnotations (kunStr other), kun_GetAnnotations (kunStr r1)])
                  (kunStr r1)\<rparr>;
          r3 = r2\<lparr>kunStr := kun_SetName (GetName other) (kunStr r2)\<rparr>;
          r4 = r3\<lparr>kunStr := kun_SetNamespace (GetNamespace other) (kunStr r3)\<rparr>
      in copyOtherFields r4 other)"

text \<open>
  \<open>mergeConfigmap\<close> (lines 432-445). The type assertion \<open>m["data"].(map[string]interface{})\<close>
  of line 437 succeeds exactly when the key is bound to a mapping; a missing key gives the
  \<open>nil\<close> interface, for which it fails. \<open>dataAssertion\<close> is the pair \<open>datamap, ok\<close>:
  \<open>Some datamap\<close> when \<open>ok\<close>. The function returns the updated \<open>mergedTo\<close>.
\<close>

definition dataAssertion :: "(string \<Rightarrow> value option) \<Rightarrow> (string \<Rightarrow> value option) option" where
  "dataAssertion m = (case m ''data'' of Some (VMap datamap) \<Rightarrow> Some datamap | _ \<Rightarrow> None)"

fun mergeConfigmap_loop ::
  "(string \<Rightarrow> value option) \<Rightarrow> (string \<Rightarrow> value option) list \<Rightarrow> (string \<Rightarrow> value option)" where
  "mergeConfigmap_loop mergedMap [] = mergedMap"
| "mergeConfigmap_loop mergedMap (m # maps) =
     (case dataAssertion m of
        Some datamap \<Rightarrow> mergeConfigmap_loop (mergedMap ++ datamap) maps
      | None \<Rightarrow> mergeConfigmap_loop mergedMap maps)"

definition mergeConfigmap ::
  "(string \<Rightarrow> value option) \<Rightarrow> (string \<Rightarrow> value option) list \<Rightarrow> (string \<Rightarrow> value option)" where
  "mergeConfigmap mergedTo maps =
     mergedTo(''data'' \<mapsto> VMap (mergeConfigmap_loop Map.empty maps))"

text \<open>
  \<open>Merge\<close> (lines 227-230). \<open>mergedTo\<close> is the document's own mapping, so the assignment
  inside \<open>mergeConfigmap\<close> lands in the document of \<open>r\<close>.
\<close>

definition Merge :: "Resource \<Rightarrow> Resource \<Rightarrow> Resource" where
  "Merge r other =
     (let r' = Replace r other in
      r'\<lparr>kunStr := (kunStr r')\<lparr>content :=
            mergeConfigmap (kun_Map (kunStr r')) [Map other, Map r']\<rparr>\<rparr>)"

section \<open>Reference bookkeeping (lines 207-220, 411-429)\<close>

text \<open>
  \<open>setSelf\<close> and \<open>setOther\<close> are maps to \<open>true\<close> that are only tested for the presence of a
  key and measured with \<open>len\<close>: sets. \<open>ReferencesEqual_self\<close> is the second loop together
  with the final comparison; its early \<open>return false\<close> is the \<open>False\<close> branch.
\<close>

fun ReferencesEqual_other :: "ResId list \<Rightarrow> ResId set \<Rightarrow> ResId set" where
  "ReferencesEqual_other [] setOther = setOther"
| "ReferencesEqual_other (ref # refs) setOther = ReferencesEqual_other refs (insert ref setOther)"

fun ReferencesEqual_self :: "ResId list \<Rightarrow> ResId set \<Rightarrow> ResId set \<Rightarrow> bool" where
  "ReferencesEqual_self [] setOther setSelf = (card setSelf = card setOther)"
| "ReferencesEqual_self (ref # refs) setOther setSelf =
     (if ref \<notin> setOther then False
      else ReferencesEqual_self refs setOther (insert ref setSelf))"

definition ReferencesEqual :: "Resource \<Rightarrow> Resource \<Rightarrow> bool" where
  "ReferencesEqual r o' =
     ReferencesEqual_self (refBy r) (ReferencesEqual_other (refBy o') {}) {}"

definition GetRefBy :: "Resource \<Rightarrow> ResId list" where
  "GetRefBy r = refBy r"

definition AppendRefBy :: "ResId \<Rightarrow> Resource \<Rightarrow> Resource" where
  "AppendRefBy id' r = r\<lparr>refBy := refBy r @ [id']\<rparr>"

section \<open>String (lines 354-360)\<close>

text \<open>
  \<open>MarshalJSON\<close> of the document, \<open>strings.TrimSpace\<close> and \<open>GenArgs.String\<close> are defined
  outside resource.go; they are parameters. \<open>GenArgs.String\<close> has a pointer receiver and
  is called on \<open>r.options\<close> whether it is \<open>nil\<close> or not.
\<close>

definition String ::
  "(Kunstructured \<Rightarrow> string \<times> error option) \<Rightarrow> (string \<Rightarrow> string) \<Rightarrow>
   (GenArgs option \<Rightarrow> string) \<Rightarrow> Resource \<Rightarrow> string" where
  "String marshalJSON trimSpace optionsString r =
     (let (bs, err) = marshalJSON (kunStr r) in
      case err of
        Some e \<Rightarrow> ''<'' @ Error e @ ''>''
      | None \<Rightarrow> trimSpace bs @ optionsString (options r))"

section \<open>Sample values\<close>

definition sampleGvk :: Gvk where
  "sampleGvk = \<lparr>Group = '''', Version = ''v1'', Kind = ''ConfigMap''\<rparr>"

definition sampleDoc :: Kunstructured where
  "sampleDoc =
     \<lparr>gvk = sampleGvk, name = ''a'', labels = Map.empty, annotations = Map.empty,
      stringAt = (\<lambda>p. Inl (GoError ''no field'')), content = Map.empty\<rparr>"

definition sampleResource :: Resource where
  "sampleResource =
     \<lparr>kunStr = sampleDoc, originalName = ''a'', originalNs = '''', options = None,
      refBy = [], refVarNames = [], namePrefixes = [], nameSuffixes = []\<rparr>"

section \<open>The ending-subsequence match\<close>

text \<open>
  The loop started at counter \<open>i\<close> never reads outside the two slices and answers whether
  the elements at distance \<open>i\<close> to \<open>k - 1\<close> from the end agree.
\<close>

lemma sameEndingSubarray_loop_result:
  assumes "0 \<le> i" "k \<le> len a" "k \<le> len b"
  shows "sameEndingSubarray_loop a b k (len a - 1) (len b - 1) i =
           Some (\<forall>j. i \<le> j \<and> j < k \<longrightarrow> a ! nat (len a - 1 - j) = b ! nat (len b - 1 - j))"
  using assms
proof (induction a b k "len a - 1" "len b - 1" i rule: sameEndingSubarray_loop.induct)
  case (1 a b compareLen i)
  show ?case
  proof (cases "i \<le> compareLen - 1")
    case False
    then show ?thesis
      by (subst sameEndingSubarray_loop.simps) auto
  next
    case True
    with 1(2-4) have ia: "index a (len a - 1 - i) = Some (a ! nat (len a - 1 - i))"
      and ib: "index b (len b - 1 - i) = Some (b ! nat (len b - 1 - i))"
      by (auto simp: index_def)
    show ?thesis
    proof (cases "a ! nat (len a - 1 - i) = b ! nat (len b - 1 - i)")
      case False
      with True 1(2) ia ib show ?thesis
        by (subst sameEndingSubarray_loop.simps) auto
    next
      case eq: True
      have step: "sameEndingSubarray_loop a b compareLen (len a - 1) (len b - 1) (i + 1) =
           Some (\<forall>j. i + 1 \<le> j \<and> j < compareLen \<longrightarrow> a ! nat (len a - 1 - j) = b ! nat (len b - 1 - j))"
        using 1(1)[OF True ia ib] eq 1(2-4) by simp
      have split: "(\<forall>j. i \<le> j \<and> j < compareLen \<longrightarrow> a ! nat (len a - 1 - j) = b ! nat (len b - 1 - j)) =
          (\<forall>j. i + 1 \<le> j \<and> j < compareLen \<longrightarrow> a ! nat (len a - 1 - j) = b ! nat (len b - 1 - j))"
      proof -
        have "\<And>j. (i \<le> j) = (j = i \<or> i + 1 \<le> j)" by auto
        with eq show ?thesis by metis
      qed
      have "sameEndingSubarray_loop a b compareLen (len a - 1) (len b - 1) i =
            sameEndingSubarray_loop a b compareLen (len a - 1) (len b - 1) (i + 1)"
        using True ia ib eq by (subst sameEndingSubarray_loop.simps) simp
      with step split show ?thesis by simp
    qed
  qed
qed

lemma sameEndingSubarray_spec:
  "sameEndingSubarray a b = Some (spec_endingSubsequenceMatch a b)"
proof (cases "min (length a) (length b) = 0")
  case True
  then show ?thesis
    by (auto simp: sameEndingSubarray_def spec_endingSubsequenceMatch_def len_def Let_def min_def split: if_splits)
next
  case False
  define k where "k = (if len a < len b then len a else len b)"
  have kk: "k = int (min (length a) (length b))" by (simp add: k_def len_def min_def)
  have k0: "k \<noteq> 0" using False kk by simp
  have "sameEndingSubarray a b = sameEndingSubarray_loop a b k (len a - 1) (len b - 1) 0"
    using k0 by (simp add: sameEndingSubarray_def k_def Let_def)
  also have "\<dots> = Some (\<forall>j. 0 \<le> j \<and> j < k \<longrightarrow> a ! nat (len a - 1 - j) = b ! nat (len b - 1 - j))"
    by (rule sameEndingSubarray_loop_result) (auto simp: k_def)
  also have "(\<forall>j. 0 \<le> j \<and> j < k \<longrightarrow> a ! nat (len a - 1 - j) = b ! nat (len b - 1 - j))
      = (\<forall>i \<in> {0..<min (length a) (length b)}. a ! (length a - 1 - i) = b ! (length b - 1 - i))"
  proof
    assume h: "\<forall>j. 0 \<le> j \<and> j < k \<longrightarrow> a ! nat (len a - 1 - j) = b ! nat (len b - 1 - j)"
    show "\<forall>i \<in> {0..<min (length a) (length b)}. a ! (length a - 1 - i) = b ! (length b - 1 - i)"
    proof
      fix i assume "i \<in> {0..<min (length a) (length b)}"
      then have "0 \<le> int i \<and> int i < k" by (simp add: kk)
      with h have "a ! nat (len a - 1 - int i) = b ! nat (len b - 1 - int i)" by blast
      moreover have "nat (len a - 1 - int i) = length a - 1 - i" "nat (len b - 1 - int i) = length b - 1 - i"
        by (simp_all add: len_def)
      ultimately show "a ! (length a - 1 - i) = b ! (length b - 1 - i)" by simp
    qed
  next
    assume h: "\<forall>i \<in> {0..<min (length a) (length b)}. a ! (length a - 1 - i) = b ! (length b - 1 - i)"
    show "\<forall>j. 0 \<le> j \<and> j < k \<longrightarrow> a ! nat (len a - 1 - j) = b ! nat (len b - 1 - j)"
    proof (intro allI impI)
      fix j assume j: "0 \<le> j \<and> j < k"
      then have "nat j < min (length a) (length b)" unfolding kk by linarith
      then have "nat j \<in> {0..<min (length a) (length b)}" by simp
      with h have "a ! (length a - 1 - nat j) = b ! (length b - 1 - nat j)" by blast
      moreover have "nat (len a - 1 - j) = length a - 1 - nat j" "nat (len b - 1 - j) = length b - 1 - nat j"
        using j unfolding len_def by linarith+
      ultimately show "a ! nat (len a - 1 - j) = b ! nat (len b - 1 - j)" by simp
    qed
  qed
  finally show ?thesis using False by (auto simp: spec_endingSubsequenceMatch_def Let_def)
qed

text \<open>
  Claim C1. \<open>PrefixesSuffixesEquals(r, o)\<close> returns normally, and it is true iff, for the
  prefix sequences and for the suffix sequences independently, with \<open>k\<close> the smaller of the
  two lengths, either \<open>k = 0\<close> or the last \<open>k\<close> elements of the sequence of \<open>r\<close> equal
  the last \<open>k\<close> elements of the sequence of \<open>o\<close>, element for element from the end
  backward. In particular the prefixes \<open>["p1"]\<close> and \<open>["p0","p1"]\<close> match, and
  \<open>["p1","p2"]\<close> and \<open>["p1"]\<close> do not.
\<close>

theorem PrefixesSuffixesEquals_ending_match:
  "PrefixesSuffixesEquals r o' =
     Some (spec_endingSubsequenceMatch (namePrefixes r) (namePrefixes o') \<and>
           spec_endingSubsequenceMatch (nameSuffixes r) (nameSuffixes o'))
   \<and> sameEndingSubarray [''p1''] [''p0'', ''p1''] = Some True
   \<and> sameEndingSubarray [''p1'', ''p2''] [''p1''] = Some False
   \<and> PrefixesSuffixesEquals (r\<lparr>namePrefixes := [''p1'']\<rparr>) (o'\<lparr>namePrefixes := [''p0'', ''p1'']\<rparr>) =
       Some (spec_endingSubsequenceMatch (nameSuffixes r) (nameSuffixes o'))
   \<and> PrefixesSuffixesEquals (r\<lparr>namePrefixes := [''p1'', ''p2'']\<rparr>) (o'\<lparr>namePrefixes := [''p1'']\<rparr>) =
       Some False"
proof -
  have gen: "PrefixesSuffixesEquals x y =
     Some (spec_endingSubsequenceMatch (namePrefixes x) (namePrefixes y) \<and>
           spec_endingSubsequenceMatch (nameSuffixes x) (nameSuffixes y))" for x y
    by (simp add: PrefixesSuffixesEquals_def GetNamePrefixes_def GetNameSuffixes_def
        sameEndingSubarray_spec)
  have m1: "spec_endingSubsequenceMatch [''p1''] [''p0'', ''p1'']"
    by (simp add: spec_endingSubsequenceMatch_def)
  have m2: "\<not> spec_endingSubsequenceMatch [''p1'', ''p2''] [''p1'']"
    by (simp add: spec_endingSubsequenceMatch_def)
  show ?thesis
    using m1 m2 by (simp add: gen sameEndingSubarray_spec)
qed

theorem PrefixesSuffixesEquals_ending_match_witness:
  "PrefixesSuffixesEquals
     (sampleResource\<lparr>namePrefixes := [''p1''], nameSuffixes := [''s1'', ''s2'']\<rparr>)
     (sampleResource\<lparr>namePrefixes := [''p0'', ''p1''], nameSuffixes := [''s2'']\<rparr>) = Some True
   \<and> PrefixesSuffixesEquals
     (sampleResource\<lparr>namePrefixes := [''p1'', ''p2'']\<rparr>)
     (sampleResource\<lparr>namePrefixes := [''p1'']\<rparr>) = Some False"
  using PrefixesSuffixesEquals_ending_match
    [of "sampleResource\<lparr>namePrefixes := [''p1''], nameSuffixes := [''s1'', ''s2'']\<rparr>"
        "sampleResource\<lparr>namePrefixes := [''p0'', ''p1''], nameSuffixes := [''s2'']\<rparr>"]
    PrefixesSuffixesEquals_ending_match
    [of "sampleResource\<lparr>namePrefixes := [''p1'', ''p2'']\<rparr>"
        "sampleResource\<lparr>namePrefixes := [''p1'']\<rparr>"]
  by (simp add: spec_endingSubsequenceMatch_def)

section \<open>Replace\<close>

lemma mergeStringMaps_pair: "mergeStringMaps [m1, m2] = m1 ++ m2"
  by (simp add: mergeStringMaps_def)

lemma copy_into_replicate: "copy_into (replicate (length src) z) src = src"
  by (simp add: copy_into_def)

lemma copyStringSlice_same: "copyStringSlice s = s"
  by (simp add: copyStringSlice_def copy_into_replicate)

lemma copyRefBy_same: "copyRefBy r = refBy r"
  by (simp add: copyRefBy_def copy_into_replicate)

lemma GetNamespace_stringAt:
  "GetNamespace r =
     (case stringAt (kunStr r) ''metadata.namespace'' of Inl e \<Rightarrow> '''' | Inr s \<Rightarrow> s)"
  by (simp add: GetNamespace_def kun_GetString_def split: sum.split)

lemma Replace_result:
  "Replace r other =
     \<lparr>kunStr = (kunStr r)
        \<lparr>name := name (kunStr other),
         labels := labels (kunStr other) ++ labels (kunStr r),
         annotations := annotations (kunStr other) ++ annotations (kunStr r),
         stringAt := (stringAt (kunStr r))(''metadata.namespace'' := Inr (GetNamespace other))\<rparr>,
      originalName = originalName other, originalNs = originalNs other,
      options = options other, refBy = refBy other, refVarNames = refVarNames other,
      namePrefixes = namePrefixes other, nameSuffixes = nameSuffixes other\<rparr>"
  by (simp add: Replace_def Let_def copyOtherFields_def copyStringSlice_same copyRefBy_same
      mergeStringMaps_pair kun_SetLabels_def kun_GetLabels_def kun_SetAnnotations_def
      kun_GetAnnotations_def kun_SetName_def kun_SetNamespace_def GetName_def kun_GetName_def)

text \<open>
  Claim C2. \<open>Replace(self, other)\<close> sets the labels of \<open>self\<close> to the union of the labels of
  \<open>other\<close> and of \<open>self\<close>, the value of \<open>self\<close> winning on every colliding key, and the same
  for the annotations; it sets the name and the namespace of \<open>self\<close> to those of \<open>other\<close>; and
  it overwrites originalName, originalNs, the generation options, the referred-by list, the
  referencing-variable list and the prefix and suffix stacks of \<open>self\<close> with those of \<open>other\<close>.
\<close>

theorem Replace_labels_identity_provenance:
  "GetLabels (Replace self other) = GetLabels other ++ GetLabels self
   \<and> dom (GetLabels (Replace self other)) = dom (GetLabels other) \<union> dom (GetLabels self)
   \<and> GetLabels (Replace self other) k =
       (case GetLabels self k of Some v \<Rightarrow> Some v | None \<Rightarrow> GetLabels other k)
   \<and> GetAnnotations (Replace self other) = GetAnnotations other ++ GetAnnotations self
   \<and> dom (GetAnnotations (Replace self other)) =
       dom (GetAnnotations other) \<union> dom (GetAnnotations self)
   \<and> GetAnnotations (Replace self other) k =
       (case GetAnnotations self k of Some v \<Rightarrow> Some v | None \<Rightarrow> GetAnnotations other k)
   \<and> GetName (Replace self other) = GetName other
   \<and> GetNamespace (Replace self other) = GetNamespace other
   \<and> originalName (Replace self other) = originalName other
   \<and> originalNs (Replace self other) = originalNs other
   \<and> options (Replace self other) = options other
   \<and> refBy (Replace self other) = refBy other
   \<and> refVarNames (Replace self other) = refVarNames other
   \<and> namePrefixes (Replace self other) = namePrefixes other
   \<and> nameSuffixes (Replace self other) = nameSuffixes other"
proof -
  have l: "GetLabels (Replace self other) = GetLabels other ++ GetLabels self"
    by (simp add: Replace_result GetLabels_def kun_GetLabels_def)
  have a: "GetAnnotations (Replace self other) = GetAnnotations other ++ GetAnnotations self"
    by (simp add: Replace_result GetAnnotations_def kun_GetAnnotations_def)
  have pick: "(m2 ++ m1) k = (case m1 k of Some v \<Rightarrow> Some v | None \<Rightarrow> m2 k)"
    for m1 m2 :: "string \<Rightarrow> string option"
    by (simp add: map_add_def)
  have n: "GetName (Replace self other) = GetName other"
    by (simp add: Replace_result GetName_def kun_GetName_def)
  have ns: "GetNamespace (Replace self other) = GetNamespace other"
    by (subst GetNamespace_stringAt) (simp add: Replace_result)
  have p: "originalName (Replace self other) = originalName other"
    "originalNs (Replace self other) = originalNs other"
    "options (Replace self other) = options other"
    "refBy (Replace self other) = refBy other"
    "refVarNames (Replace self other) = refVarNames other"
    "namePrefixes (Replace self other) = namePrefixes other"
    "nameSuffixes (Replace self other) = nameSuffixes other"
    by (simp_all add: Replace_result)
  show ?thesis
    by (simp add: l a pick n ns p Un_commute)
qed

theorem Replace_labels_identity_provenance_witness:
  "GetLabels
     (Replace
        (sampleResource\<lparr>kunStr := kun_SetLabels [''env'' \<mapsto> ''self''] sampleDoc\<rparr>)
        (sampleResource\<lparr>kunStr := kun_SetName ''o''
           (kun_SetLabels [''env'' \<mapsto> ''other'', ''team'' \<mapsto> ''x''] sampleDoc)\<rparr>))
     = [''env'' \<mapsto> ''self'', ''team'' \<mapsto> ''x'']
   \<and> GetName
     (Replace
        (sampleResource\<lparr>kunStr := kun_SetLabels [''env'' \<mapsto> ''self''] sampleDoc\<rparr>)
        (sampleResource\<lparr>kunStr := kun_SetName ''o''
           (kun_SetLabels [''env'' \<mapsto> ''other'', ''team'' \<mapsto> ''x''] sampleDoc)\<rparr>))
     = ''o''"
  using Replace_labels_identity_provenance
    [of "sampleResource\<lparr>kunStr := kun_SetLabels [''env'' \<mapsto> ''self''] sampleDoc\<rparr>"
        "sampleResource\<lparr>kunStr := kun_SetName ''o''
           (kun_SetLabels [''env'' \<mapsto> ''other'', ''team'' \<mapsto> ''x''] sampleDoc)\<rparr>"]
  by (auto simp: GetLabels_def GetName_def kun_GetLabels_def kun_GetName_def kun_SetLabels_def
      kun_SetName_def fun_eq_iff map_add_def)


section \<open>Merge\<close>

lemma mergeConfigmap_loop_pair:
  "mergeConfigmap_loop Map.empty [m1, m2] =
     (case dataAssertion m1 of Some d \<Rightarrow> d | None \<Rightarrow> Map.empty) ++
     (case dataAssertion m2 of Some d \<Rightarrow> d | None \<Rightarrow> Map.empty)"
  by (simp split: option.split)

lemma Map_Replace: "Map (Replace r other) = Map r"
  by (simp add: Replace_result Map_def kun_Map_def)

lemma Merge_result:
  "Merge r other =
     (Replace r other)
       \<lparr>kunStr := (kunStr (Replace r other))
          \<lparr>content := (Map r)(''data'' \<mapsto> VMap
             ((case dataAssertion (Map other) of Some d \<Rightarrow> d | None \<Rightarrow> Map.empty) ++
              (case dataAssertion (Map r) of Some d \<Rightarrow> d | None \<Rightarrow> Map.empty)))\<rparr>\<rparr>"
proof -
  have "kun_Map (kunStr (Replace r other)) = Map r"
    using Map_Replace [of r other] by (simp add: Map_def)
  then show ?thesis
    by (simp add: Merge_def Let_def mergeConfigmap_def mergeConfigmap_loop_pair Map_Replace
        del: mergeConfigmap_loop.simps)
qed

lemma Map_Merge:
  "Map (Merge r other) =
     (Map r)(''data'' \<mapsto> VMap
        ((case dataAssertion (Map other) of Some d \<Rightarrow> d | None \<Rightarrow> Map.empty) ++
         (case dataAssertion (Map r) of Some d \<Rightarrow> d | None \<Rightarrow> Map.empty)))"
  by (subst Merge_result) (simp add: Map_def kun_Map_def)

text \<open>
  Claim C3. \<open>Merge(self, other)\<close> first performs \<open>Replace(self, other)\<close> in full: the result
  is the result of \<open>Replace\<close> but for the key \<open>data\<close> of the document. That key is bound to
  the key-level union of the \<open>data\<close> sub-mapping of \<open>other\<close> and of \<open>self\<close> (a document
  without a \<open>data\<close> mapping contributes nothing), the entries of \<open>self\<close> winning on a key
  collision. For \<open>self\<close> with data \<open>{k1: v1}\<close> and \<open>other\<close> with data \<open>{k1: old, k2: v2}\<close>
  the merged data is \<open>{k1: v1, k2: v2}\<close>.
\<close>

theorem Merge_replace_then_data_union:
  "Merge self other =
     (Replace self other)
       \<lparr>kunStr := (kunStr (Replace self other))
          \<lparr>content := (Map (Replace self other))(''data'' \<mapsto> VMap
             (\<lambda>k. case (case dataAssertion (Map self) of Some d \<Rightarrow> d | None \<Rightarrow> Map.empty) k of
                    Some v \<Rightarrow> Some v
                  | None \<Rightarrow> (case dataAssertion (Map other) of Some d \<Rightarrow> d | None \<Rightarrow> Map.empty) k))\<rparr>\<rparr>
   \<and> Map (Merge self other) ''data'' = Some (VMap
        ((case dataAssertion (Map other) of Some d \<Rightarrow> d | None \<Rightarrow> Map.empty) ++
         (case dataAssertion (Map self) of Some d \<Rightarrow> d | None \<Rightarrow> Map.empty)))
   \<and> GetLabels (Merge self other) = GetLabels (Replace self other)
   \<and> GetAnnotations (Merge self other) = GetAnnotations (Replace self other)
   \<and> GetName (Merge self other) = GetName (Replace self other)
   \<and> GetNamespace (Merge self other) = GetNamespace (Replace self other)
   \<and> Map (Merge
        (self\<lparr>kunStr := (kunStr self)\<lparr>content :=
           [''data'' \<mapsto> VMap [''k1'' \<mapsto> VString ''v1'']]\<rparr>\<rparr>)
        (other\<lparr>kunStr := (kunStr other)\<lparr>content :=
           [''data'' \<mapsto> VMap [''k1'' \<mapsto> VString ''old'', ''k2'' \<mapsto> VString ''v2'']]\<rparr>\<rparr>))
        ''data''
       = Some (VMap [''k1'' \<mapsto> VString ''v1'', ''k2'' \<mapsto> VString ''v2''])"
proof -
  have u: "(\<lambda>k. case m1 k of Some v \<Rightarrow> Some v | None \<Rightarrow> m2 k) = m2 ++ m1"
    for m1 m2 :: "string \<Rightarrow> value option"
    by (simp add: fun_eq_iff map_add_def)
  have first: "Merge self other =
     (Replace self other)
       \<lparr>kunStr := (kunStr (Replace self other))
          \<lparr>content := (Map (Replace self other))(''data'' \<mapsto> VMap
             (\<lambda>k. case (case dataAssertion (Map self) of Some d \<Rightarrow> d | None \<Rightarrow> Map.empty) k of
                    Some v \<Rightarrow> Some v
                  | None \<Rightarrow> (case dataAssertion (Map other) of Some d \<Rightarrow> d | None \<Rightarrow> Map.empty) k))\<rparr>\<rparr>"
    unfolding u Map_Replace by (rule Merge_result)
  have frame: "GetLabels (Merge self other) = GetLabels (Replace self other)"
    "GetAnnotations (Merge self other) = GetAnnotations (Replace self other)"
    "GetName (Merge self other) = GetName (Replace self other)"
    "GetNamespace (Merge self other) = GetNamespace (Replace self other)"
    by (simp_all add: Merge_def Let_def GetLabels_def GetAnnotations_def GetName_def
        GetNamespace_def kun_GetLabels_def kun_GetAnnotations_def kun_GetName_def kun_GetString_def)
  have tw: "[''k2'' \<mapsto> VString ''v2'', ''k1'' \<mapsto> VString ''v1'']
      = [''k1'' \<mapsto> VString ''v1'', ''k2'' \<mapsto> VString ''v2'']"
    by (rule ext) simp
  have example: "Map (Merge
        (self\<lparr>kunStr := (kunStr self)\<lparr>content :=
           [''data'' \<mapsto> VMap [''k1'' \<mapsto> VString ''v1'']]\<rparr>\<rparr>)
        (other\<lparr>kunStr := (kunStr other)\<lparr>content :=
           [''data'' \<mapsto> VMap [''k1'' \<mapsto> VString ''old'', ''k2'' \<mapsto> VString ''v2'']]\<rparr>\<rparr>))
        ''data''
       = Some (VMap [''k1'' \<mapsto> VString ''v1'', ''k2'' \<mapsto> VString ''v2''])"
    by (simp add: Map_Merge) (simp add: Map_def kun_Map_def dataAssertion_def tw)
  have second: "Map (Merge self other) ''data'' = Some (VMap
        ((case dataAssertion (Map other) of Some d \<Rightarrow> d | None \<Rightarrow> Map.empty) ++
         (case dataAssertion (Map self) of Some d \<Rightarrow> d | None \<Rightarrow> Map.empty)))"
    by (simp add: Map_Merge)
  show ?thesis
    by (intro conjI first second frame example)
qed

theorem Merge_replace_then_data_union_witness:
  "Map (Merge
     (sampleResource\<lparr>kunStr := sampleDoc\<lparr>content :=
        [''data'' \<mapsto> VMap [''k1'' \<mapsto> VString ''v1''], ''kind'' \<mapsto> VString ''ConfigMap'']\<rparr>\<rparr>)
     (sampleResource\<lparr>kunStr := sampleDoc\<lparr>content :=
        [''data'' \<mapsto> VMap [''k1'' \<mapsto> VString ''old'', ''k2'' \<mapsto> VString ''v2'']]\<rparr>\<rparr>))
   = [''data'' \<mapsto> VMap [''k1'' \<mapsto> VString ''v1'', ''k2'' \<mapsto> VString ''v2''],
      ''kind'' \<mapsto> VString ''ConfigMap'']"
proof -
  have ex: "[''k1'' \<mapsto> VString ''old'', ''k2'' \<mapsto> VString ''v2''] ++ [''k1'' \<mapsto> VString ''v1'']
      = [''k1'' \<mapsto> VString ''v1'', ''k2'' \<mapsto> VString ''v2'']"
    by (rule ext) (simp add: map_add_def)
  have r: "Map (Replace
     (sampleResource\<lparr>kunStr := sampleDoc\<lparr>content :=
        [''data'' \<mapsto> VMap [''k1'' \<mapsto> VString ''v1''], ''kind'' \<mapsto> VString ''ConfigMap'']\<rparr>\<rparr>)
     (sampleResource\<lparr>kunStr := sampleDoc\<lparr>content :=
        [''data'' \<mapsto> VMap [''k1'' \<mapsto> VString ''old'', ''k2'' \<mapsto> VString ''v2'']]\<rparr>\<rparr>))
     = [''data'' \<mapsto> VMap [''k1'' \<mapsto> VString ''v1''], ''kind'' \<mapsto> VString ''ConfigMap'']"
    by (simp add: Map_Replace) (simp add: Map_def kun_Map_def)
  show ?thesis
    using Merge_replace_then_data_union
      [of "sampleResource\<lparr>kunStr := sampleDoc\<lparr>content :=
        [''data'' \<mapsto> VMap [''k1'' \<mapsto> VString ''v1''], ''kind'' \<mapsto> VString ''ConfigMap'']\<rparr>\<rparr>"
        "sampleResource\<lparr>kunStr := sampleDoc\<lparr>content :=
        [''data'' \<mapsto> VMap [''k1'' \<mapsto> VString ''old'', ''k2'' \<mapsto> VString ''v2'']]\<rparr>\<rparr>"]
    by (simp add: r) (simp add: Map_def kun_Map_def dataAssertion_def fun_eq_iff)
qed

section \<open>Set equality of the referrers\<close>

lemma ReferencesEqual_other_set:
  "ReferencesEqual_other refs setOther = setOther \<union> set refs"
  by (induction refs arbitrary: setOther) auto

lemma ReferencesEqual_self_iff:
  "ReferencesEqual_self refs setOther setSelf \<longleftrightarrow>
     set refs \<subseteq> setOther \<and> card (setSelf \<union> set refs) = card setOther"
  by (induction refs arbitrary: setSelf) auto

text \<open>
  Claim C4. \<open>ReferencesEqual(self, other)\<close> is true iff the set of the referred-by
  identities of \<open>self\<close> equals the set of those of \<open>other\<close>, whatever the order and the
  multiplicity of the entries in the two lists: \<open>[A, B, A]\<close> and \<open>[B, A]\<close> are equal.
\<close>

theorem ReferencesEqual_set_equality:
  "(ReferencesEqual self other \<longleftrightarrow> set (refBy self) = set (refBy other))
   \<and> ReferencesEqual (self\<lparr>refBy := [A, B, A]\<rparr>) (other\<lparr>refBy := [B, A]\<rparr>)
   \<and> ReferencesEqual (self\<lparr>refBy := refs\<rparr>) (other\<lparr>refBy := rev refs @ refs\<rparr>)"
proof -
  have gen: "ReferencesEqual x y \<longleftrightarrow> set (refBy x) = set (refBy y)" for x y
  proof -
    have "ReferencesEqual x y \<longleftrightarrow>
        set (refBy x) \<subseteq> set (refBy y) \<and> card (set (refBy x)) = card (set (refBy y))"
      by (simp add: ReferencesEqual_def ReferencesEqual_self_iff ReferencesEqual_other_set)
    also have "\<dots> \<longleftrightarrow> set (refBy x) = set (refBy y)"
      using card_subset_eq [of "set (refBy y)" "set (refBy x)"] by auto
    finally show ?thesis .
  qed
  show ?thesis
    by (auto simp: gen)
qed

theorem ReferencesEqual_set_equality_witness:
  "ReferencesEqual
     (sampleResource\<lparr>refBy := [NewResIdWithNamespace sampleGvk ''A'' '''',
        NewResIdWithNamespace sampleGvk ''B'' '''', NewResIdWithNamespace sampleGvk ''A'' '''']\<rparr>)
     (sampleResource\<lparr>refBy := [NewResIdWithNamespace sampleGvk ''B'' '''',
        NewResIdWithNamespace sampleGvk ''A'' '''']\<rparr>)
   \<and> \<not> ReferencesEqual
     (sampleResource\<lparr>refBy := [NewResIdWithNamespace sampleGvk ''A'' '''']\<rparr>)
     (sampleResource\<lparr>refBy := [NewResIdWithNamespace sampleGvk ''B'' '''',
        NewResIdWithNamespace sampleGvk ''A'' '''']\<rparr>)"
  using ReferencesEqual_set_equality
    [where self = "sampleResource\<lparr>refBy := [NewResIdWithNamespace sampleGvk ''A'' '''']\<rparr>"
       and other = "sampleResource\<lparr>refBy := [NewResIdWithNamespace sampleGvk ''B'' '''',
           NewResIdWithNamespace sampleGvk ''A'' '''']\<rparr>"
       and A = "NewResIdWithNamespace sampleGvk ''A'' ''''"
       and B = "NewResIdWithNamespace sampleGvk ''B'' ''''"]
  by (auto simp: NewResIdWithNamespace_def)


section \<open>Identities, namespace, primary data and the textual form\<close>

text \<open>
  Claim C5. \<open>CurId\<close> is computed from the document as it is at the call, \<open>OrgId\<close> from the
  stored original name and namespace: after \<open>SetName\<close> the name of \<open>CurId\<close> is the new name
  and \<open>OrgId\<close> is what it was. For a Resource whose document name and original name are both
  \<open>a\<close>, renaming the document to \<open>b\<close> gives \<open>CurId\<close> the name \<open>b\<close> and leaves \<open>OrgId\<close> the
  name \<open>a\<close>.
\<close>

theorem CurId_live_OrgId_snapshot:
  "CurId r = NewResIdWithNamespace (kun_GetGvk (kunStr r)) (GetName r) (GetNamespace r)
   \<and> Name (CurId (SetName n r)) = n
   \<and> Namespace (CurId (SetNamespace ns r)) = ns
   \<and> OrgId (SetName n r) = OrgId r
   \<and> OrgId (SetNamespace ns r) = OrgId r
   \<and> Name (OrgId (SetName n r)) = originalName r
   \<and> Namespace (OrgId (SetNamespace ns r)) = originalNs r
   \<and> Name (CurId (SetName ''b'' (r\<lparr>kunStr := kun_SetName ''a'' (kunStr r), originalName := ''a''\<rparr>))) = ''b''
   \<and> Name (OrgId (SetName ''b'' (r\<lparr>kunStr := kun_SetName ''a'' (kunStr r), originalName := ''a''\<rparr>))) = ''a''
   \<and> Name (CurId (r\<lparr>kunStr := kun_SetName ''a'' (kunStr r), originalName := ''a''\<rparr>)) = ''a''"
  by (simp add: CurId_def OrgId_def NewResIdWithNamespace_def SetName_def SetNamespace_def
      GetName_def GetNamespace_def GetOriginalName_def GetOriginalNs_def kun_GetName_def
      kun_SetName_def kun_SetNamespace_def kun_GetGvk_def kun_GetString_def)

theorem CurId_live_OrgId_snapshot_witness:
  "Name (CurId sampleResource) = ''a''
   \<and> Name (CurId (SetName ''b'' sampleResource)) = ''b''
   \<and> Name (OrgId (SetName ''b'' sampleResource)) = ''a''"
proof -
  note t = CurId_live_OrgId_snapshot [where r = sampleResource and n = "''b''" and ns = "''x''"]
  have cur: "CurId sampleResource =
      NewResIdWithNamespace (kun_GetGvk (kunStr sampleResource)) (GetName sampleResource)
        (GetNamespace sampleResource)"
    by (rule t [THEN conjunct1])
  have renamed: "Name (CurId (SetName ''b'' sampleResource)) = ''b''"
    by (rule t [THEN conjunct2, THEN conjunct1])
  have org: "Name (OrgId (SetName ''b'' sampleResource)) = originalName sampleResource"
    by (rule t [THEN conjunct2, THEN conjunct2, THEN conjunct2, THEN conjunct2, THEN conjunct2,
          THEN conjunct1])
  have "Name (CurId sampleResource) = ''a''"
    unfolding cur
    by (simp add: NewResIdWithNamespace_def GetName_def kun_GetName_def sampleResource_def
        sampleDoc_def)
  moreover have "originalName sampleResource = ''a''"
    by (simp add: sampleResource_def)
  ultimately show ?thesis
    using renamed org by simp
qed

text \<open>
  Claim C6. When marshaling succeeds, \<open>String()\<close> is the trimmed marshaled bytes followed
  at once by the rendering of the generation options, nothing in between; when marshaling
  fails, \<open>String()\<close> still returns a string, the error message between angle brackets.
\<close>

theorem String_concatenation_or_placeholder:
  "(marshalJSON (kunStr r) = (bs, None) \<longrightarrow>
      String marshalJSON trimSpace optionsString r = trimSpace bs @ optionsString (options r)
      \<and> length (String marshalJSON trimSpace optionsString r) =
          length (trimSpace bs) + length (optionsString (options r))
      \<and> take (length (trimSpace bs)) (String marshalJSON trimSpace optionsString r) = trimSpace bs
      \<and> drop (length (trimSpace bs)) (String marshalJSON trimSpace optionsString r) =
          optionsString (options r))
   \<and> (marshalJSON (kunStr r) = (bs, Some e) \<longrightarrow>
      String marshalJSON trimSpace optionsString r = ''<'' @ Error e @ ''>'')"
  by (simp add: String_def)

theorem String_concatenation_or_placeholder_witness:
  "String (\<lambda>d. (''  {} '', None))
      (\<lambda>s. rev (dropWhile (\<lambda>c. c = CHR '' '') (rev (dropWhile (\<lambda>c. c = CHR '' '') s))))
      (\<lambda>g. ''{nilGenArgs}'') sampleResource = ''{}{nilGenArgs}''
   \<and> String (\<lambda>d. ('''', Some (GoError ''boom'')))
      (\<lambda>s. rev (dropWhile (\<lambda>c. c = CHR '' '') (rev (dropWhile (\<lambda>c. c = CHR '' '') s))))
      (\<lambda>g. ''{nilGenArgs}'') sampleResource = ''<boom>''"
  using String_concatenation_or_placeholder
    [of "\<lambda>d. (''  {} '', None)" sampleResource "''  {} ''"
        "\<lambda>s. rev (dropWhile (\<lambda>c. c = CHR '' '') (rev (dropWhile (\<lambda>c. c = CHR '' '') s)))"
        "\<lambda>g. ''{nilGenArgs}''" "GoError ''boom''"]
    String_concatenation_or_placeholder
    [of "\<lambda>d. ('''', Some (GoError ''boom''))" sampleResource "''''"
        "\<lambda>s. rev (dropWhile (\<lambda>c. c = CHR '' '') (rev (dropWhile (\<lambda>c. c = CHR '' '') s)))"
        "\<lambda>g. ''{nilGenArgs}''" "GoError ''boom''"]
  by simp

text \<open>
  Claim C7. \<open>GetNamespace\<close> returns a string and no error: it is the string part of the
  lookup of \<open>metadata.namespace\<close>, and when that lookup fails, with whatever error, it is the
  empty string, the same result as for a namespace that is set to the empty string.
\<close>

theorem GetNamespace_swallows_lookup_error:
  "GetNamespace r = fst (kun_GetString (kunStr r) ''metadata.namespace'')
   \<and> (snd (kun_GetString (kunStr r) ''metadata.namespace'') \<noteq> None \<longrightarrow> GetNamespace r = '''')
   \<and> (stringAt (kunStr r) ''metadata.namespace'' = Inl e \<longrightarrow>
        snd (kun_GetString (kunStr r) ''metadata.namespace'') = Some e \<and> GetNamespace r = ''''
        \<and> GetNamespace r = GetNamespace (SetNamespace '''' r))
   \<and> GetNamespace (SetNamespace ns r) = ns"
  by (simp add: GetNamespace_def kun_GetString_def SetNamespace_def kun_SetNamespace_def
      split: sum.split)

theorem GetNamespace_swallows_lookup_error_witness:
  "snd (kun_GetString (kunStr sampleResource) ''metadata.namespace'') = Some (GoError ''no field'')
   \<and> GetNamespace sampleResource = ''''
   \<and> GetNamespace (SetNamespace '''' sampleResource) = ''''"
proof -
  note t = GetNamespace_swallows_lookup_error
    [where r = sampleResource and e = "GoError ''no field''" and ns = "''''"]
  have fails: "stringAt (kunStr sampleResource) ''metadata.namespace'' = Inl (GoError ''no field'')"
    by (simp add: sampleResource_def sampleDoc_def)
  have "snd (kun_GetString (kunStr sampleResource) ''metadata.namespace'') = Some (GoError ''no field'')
      \<and> GetNamespace sampleResource = ''''
      \<and> GetNamespace sampleResource = GetNamespace (SetNamespace '''' sampleResource)"
    by (rule mp [OF t [THEN conjunct2, THEN conjunct2, THEN conjunct1] fails])
  then show ?thesis
    by auto
qed

text \<open>
  Claim C8. \<open>ResetPrimaryData(r, incoming)\<close> replaces the document of \<open>r\<close> by a copy of the
  document of \<open>incoming\<close> and nothing else: originalName, originalNs, the generation options,
  the referred-by list, the referencing-variable list and the prefix and suffix stacks of \<open>r\<close>
  are what they were.
\<close>

theorem ResetPrimaryData_frame:
  "kunStr (ResetPrimaryData r incoming) = kun_Copy (kunStr incoming)
   \<and> kunStr (ResetPrimaryData r incoming) = kunStr incoming
   \<and> originalName (ResetPrimaryData r incoming) = originalName r
   \<and> originalNs (ResetPrimaryData r incoming) = originalNs r
   \<and> options (ResetPrimaryData r incoming) = options r
   \<and> refBy (ResetPrimaryData r incoming) = refBy r
   \<and> refVarNames (ResetPrimaryData r incoming) = refVarNames r
   \<and> namePrefixes (ResetPrimaryData r incoming) = namePrefixes r
   \<and> nameSuffixes (ResetPrimaryData r incoming) = nameSuffixes r
   \<and> OrgId (ResetPrimaryData r incoming) =
       NewResIdWithNamespace (kun_GetGvk (kunStr incoming)) (originalName r) (originalNs r)"
  by (simp add: ResetPrimaryData_def kun_Copy_def OrgId_def GetOriginalName_def GetOriginalNs_def)

theorem ResetPrimaryData_frame_witness:
  "GetName (ResetPrimaryData
      (sampleResource\<lparr>originalName := ''first'', namePrefixes := [''p-'']\<rparr>)
      (sampleResource\<lparr>kunStr := kun_SetName ''incoming'' sampleDoc, originalName := ''second''\<rparr>))
     = ''incoming''
   \<and> originalName (ResetPrimaryData
      (sampleResource\<lparr>originalName := ''first'', namePrefixes := [''p-'']\<rparr>)
      (sampleResource\<lparr>kunStr := kun_SetName ''incoming'' sampleDoc, originalName := ''second''\<rparr>))
     = ''first''
   \<and> namePrefixes (ResetPrimaryData
      (sampleResource\<lparr>originalName := ''first'', namePrefixes := [''p-'']\<rparr>)
      (sampleResource\<lparr>kunStr := kun_SetName ''incoming'' sampleDoc, originalName := ''second''\<rparr>))
     = [''p-'']"
  using ResetPrimaryData_frame
    [of "sampleResource\<lparr>originalName := ''first'', namePrefixes := [''p-'']\<rparr>"
        "sampleResource\<lparr>kunStr := kun_SetName ''incoming'' sampleDoc, originalName := ''second''\<rparr>"]
  by (simp add: GetName_def kun_GetName_def kun_SetName_def kun_Copy_def)


text \<open>
  Claim C9. After \<open>Merge(self, other)\<close> the document of \<open>self\<close> has the key \<open>data\<close> bound to
  a mapping; when neither document has a \<open>data\<close> mapping, the mapping written is empty.
\<close>

theorem Merge_always_writes_data:
  "(\<exists>m. Map (Merge self other) ''data'' = Some (VMap m))
   \<and> (dataAssertion (Map self) = None \<and> dataAssertion (Map other) = None \<longrightarrow>
        Map (Merge self other) ''data'' = Some (VMap Map.empty))"
  by (simp add: Map_Merge)

theorem Merge_always_writes_data_witness:
  "dataAssertion (Map sampleResource) = None
   \<and> dataAssertion (Map (sampleResource\<lparr>kunStr := sampleDoc\<lparr>content :=
        [''data'' \<mapsto> VString ''text'']\<rparr>\<rparr>)) = None
   \<and> Map (Merge sampleResource (sampleResource\<lparr>kunStr := sampleDoc\<lparr>content :=
        [''data'' \<mapsto> VString ''text'']\<rparr>\<rparr>)) ''data'' = Some (VMap Map.empty)"
  using Merge_always_writes_data
    [of sampleResource "sampleResource\<lparr>kunStr := sampleDoc\<lparr>content :=
        [''data'' \<mapsto> VString ''text'']\<rparr>\<rparr>"]
  by (simp add: Map_def kun_Map_def dataAssertion_def sampleResource_def sampleDoc_def)

section \<open>The outermost prefix and suffix\<close>

lemma GetOutermostNamePrefix_last:
  "GetOutermostNamePrefix r = Some (if namePrefixes r = [] then [] else last (namePrefixes r))"
  by (cases "namePrefixes r" rule: rev_cases) (simp_all add: GetOutermostNamePrefix_def len_def index_def)

lemma GetOutermostNameSuffix_last:
  "GetOutermostNameSuffix r = Some (if nameSuffixes r = [] then [] else last (nameSuffixes r))"
  by (cases "nameSuffixes r" rule: rev_cases) (simp_all add: GetOutermostNameSuffix_def len_def index_def)

text \<open>
  Claim C10. \<open>GetOutermostNamePrefix\<close> and \<open>GetOutermostNameSuffix\<close> return the empty
  string both when the stack is empty and when its last pushed element is the empty string.
  Consequently, for two Resources whose prefix stacks are equal or are each of one of these
  two kinds, and whose suffix stacks likewise, \<open>OutermostPrefixSuffixEquals\<close> returns true.
\<close>

theorem OutermostPrefixSuffixEquals_empty_string:
  "(namePrefixes r = [] \<or> last (namePrefixes r) = '''' \<longrightarrow> GetOutermostNamePrefix r = Some '''')
   \<and> (nameSuffixes r = [] \<or> last (nameSuffixes r) = '''' \<longrightarrow> GetOutermostNameSuffix r = Some '''')
   \<and> ((namePrefixes r = namePrefixes o' \<or>
         (namePrefixes r = [] \<or> last (namePrefixes r) = '''') \<and>
         (namePrefixes o' = [] \<or> last (namePrefixes o') = ''''))
        \<and> (nameSuffixes r = nameSuffixes o' \<or>
         (nameSuffixes r = [] \<or> last (nameSuffixes r) = '''') \<and>
         (nameSuffixes o' = [] \<or> last (nameSuffixes o') = ''''))
      \<longrightarrow> OutermostPrefixSuffixEquals r o' = Some True)
   \<and> GetOutermostNamePrefix (AddNamePrefix '''' r) = Some ''''
   \<and> GetOutermostNameSuffix (AddNameSuffix '''' r) = Some ''''"
  by (auto simp: OutermostPrefixSuffixEquals_def GetOutermostNamePrefix_last
      GetOutermostNameSuffix_last AddNamePrefix_def AddNameSuffix_def)

theorem OutermostPrefixSuffixEquals_empty_string_witness:
  "GetOutermostNamePrefix (sampleResource\<lparr>namePrefixes := [], nameSuffixes := [''x'', '''']\<rparr>) = Some ''''
   \<and> GetOutermostNameSuffix (sampleResource\<lparr>namePrefixes := [], nameSuffixes := [''x'', '''']\<rparr>) = Some ''''
   \<and> OutermostPrefixSuffixEquals
       (sampleResource\<lparr>namePrefixes := [], nameSuffixes := [''x'', '''']\<rparr>)
       (sampleResource\<lparr>namePrefixes := [''p'', ''''], nameSuffixes := []\<rparr>) = Some True"
  using OutermostPrefixSuffixEquals_empty_string
    [of "sampleResource\<lparr>namePrefixes := [], nameSuffixes := [''x'', '''']\<rparr>"
        "sampleResource\<lparr>namePrefixes := [''p'', ''''], nameSuffixes := []\<rparr>"]
  by simp

end
